theory Spec2Isabelle
  imports Complex_Main
begin

section \<open>Variable declarations: the two matrix sums\<close>

text \<open>
  \<^verbatim>\<open>let-declarations.ts\<close>, lines 130 to 139:
  \<^verbatim>\<open>
  function sumMatrix1(matrix: number[][]) {
      let sum = 0;
      for (let i = 0; i < matrix.length; i++) {
          var currentRow = matrix[i];
          for (let i = 0; i < currentRow.length; i++) {
              sum += currentRow[i];
          }
      }
      return sum;
  }
  \<close>
  The inner \<open>let i\<close> is a new variable, so the inner loop hands back only the sum
  (the variable \<open>sum\<close> of the source is \<open>sum_var\<close> here, \<open>sum\<close> being a
  constant of HOL).
  Both loops read their array under the guard \<open>i < length\<close>, so no read is out of
  range. The element type is any type with a zero and an addition: no law of addition
  is used, so the model does not depend on how JavaScript numbers round.
\<close>

function sumMatrix1_inner :: "'a::plus list \<Rightarrow> nat \<Rightarrow> 'a \<Rightarrow> 'a" where
  "sumMatrix1_inner currentRow i sum_var =
     (if i < length currentRow
      then sumMatrix1_inner currentRow (i + 1) (sum_var + currentRow ! i)
      else sum_var)"
  by pat_completeness auto
termination
  by (relation "measure (\<lambda>(currentRow, i, sum_var). length currentRow - i)") auto

function sumMatrix1_outer :: "'a::plus list list \<Rightarrow> nat \<Rightarrow> 'a \<Rightarrow> 'a" where
  "sumMatrix1_outer matrix i sum_var =
     (if i < length matrix
      then sumMatrix1_outer matrix (i + 1) (sumMatrix1_inner (matrix ! i) 0 sum_var)
      else sum_var)"
  by pat_completeness auto
termination
  by (relation "measure (\<lambda>(matrix, i, sum_var). length matrix - i)") auto

definition sumMatrix1 :: "'a::{zero,plus} list list \<Rightarrow> 'a" where
  "sumMatrix1 matrix = sumMatrix1_outer matrix 0 0"

text \<open>
  \<^verbatim>\<open>var-declaration.ts\<close>, lines 78 to 88:
  \<^verbatim>\<open>
  function sumMatrix(matrix: number[][]) {
      var sum = 0;
      for (var i = 0; i < matrix.length; i++) {
          var currentRow = matrix[i];
          for (var i = 0; i < currentRow.length; i++) {
              sum += currentRow[i];
          }
      }
      return sum;
  }
  \<close>
  Here both loops use the one function-scoped \<open>i\<close>: the inner loop sets it to 0 and
  leaves it at the length of the row, and the outer loop goes on from there. The inner
  loop therefore returns the counter together with the sum. The outer loop need not
  end (two empty rows keep the counter at 1), so it is a partial function and not
  returning is the value \<open>None\<close>.
\<close>

function sumMatrix_inner :: "'a::plus list \<Rightarrow> nat \<Rightarrow> 'a \<Rightarrow> nat \<times> 'a" where
  "sumMatrix_inner currentRow i sum_var =
     (if i < length currentRow
      then sumMatrix_inner currentRow (i + 1) (sum_var + currentRow ! i)
      else (i, sum_var))"
  by pat_completeness auto
termination
  by (relation "measure (\<lambda>(currentRow, i, sum_var). length currentRow - i)") auto

partial_function (option) sumMatrix_outer :: "'a::plus list list \<Rightarrow> nat \<Rightarrow> 'a \<Rightarrow> 'a option" where
  "sumMatrix_outer matrix i sum_var =
     (if i < length matrix
      then (case sumMatrix_inner (matrix ! i) 0 sum_var of
              (i', sum_var') \<Rightarrow> sumMatrix_outer matrix (i' + 1) sum_var')
      else Some sum_var)"

definition sumMatrix :: "'a::{zero,plus} list list \<Rightarrow> 'a option" where
  "sumMatrix matrix = sumMatrix_outer matrix 0 0"

declare sumMatrix1_inner.simps [simp del]
declare sumMatrix1_outer.simps [simp del]
declare sumMatrix_inner.simps [simp del]

section \<open>Basic types: the functions of type never\<close>

text \<open>
  Values as far as the modelled statements use them. Numbers that the modelled
  statements only count with (loop counters, literals such as 10) are integers.
\<close>

datatype jsval = Undefined | Str string | Number int

text \<open>
  What a \<open>throw\<close> can carry in the modelled files: any value
  (\<^verbatim>\<open>throw "oh no!"\<close>), an \<open>Error\<close> object with its message
  (\<^verbatim>\<open>throw new Error(message)\<close>), or the \<open>ReferenceError\<close> of the runtime, with the
  name of the variable that was read too early.
\<close>

datatype exn = ThrownValue jsval | ErrorObject string | ReferenceError string



section \<open>Variable declarations: the top level of let-declarations.ts\<close>

text \<open>
  A \<open>let\<close> binding exists from the start of its scope but is in its temporal dead
  zone until its declaration has been evaluated.
\<close>

datatype binding = TDZ | Initialized jsval

text \<open>
  The source says what the call \<open>foo1()\<close> does depends on the compilation target
  (lines 58 to 61): with ES2015 the \<open>let\<close> stays and the runtime checks the dead
  zone; with ES5 the compiler writes \<open>var\<close>, which is hoisted and starts as
  \<open>undefined\<close>.
\<close>

datatype target = ES5 | ES2015

text \<open>
  The function handed to \<open>setTimeout\<close> in line 184,
  \<^verbatim>\<open>function() { console.log(i); }\<close>, together with the \<open>i\<close> of the iteration
  that created it (a \<open>let\<close> in a loop head is a new variable in each iteration).
\<close>

datatype callback = LogCounter nat

text \<open>
  The state of the file: its four top-level \<open>let\<close> variables, what has been written
  to the console, and the timers that \<open>setTimeout\<close> has registered and that have
  not fired yet, each with its delay in milliseconds, in the order of registration.
\<close>

record let_env =
  hello_binding :: binding
  c_binding :: binding
  d_binding :: binding
  x1_binding :: binding
  console :: "jsval list"
  timers :: "(nat \<times> callback) list"

text \<open>
  A statement or call either completes, with a value and the state it leaves, or
  throws, and then the state is the one at the \<open>throw\<close>.
\<close>

datatype 'a completion = Normal 'a let_env | Abrupt exn let_env

fun completes :: "'a completion \<Rightarrow> bool" where
  "completes (Normal v env) = True"
| "completes (Abrupt e env) = False"

text \<open>Sequencing: what follows a statement runs only if the statement completes.\<close>

fun and_then :: "'a completion \<Rightarrow> ('a \<Rightarrow> let_env \<Rightarrow> 'b completion) \<Rightarrow> 'b completion" where
  "and_then (Normal v env) rest = rest v env"
| "and_then (Abrupt e env) rest = Abrupt e env"

definition console_log :: "jsval \<Rightarrow> let_env \<Rightarrow> let_env" where
  "console_log v env = env\<lparr>console := console env @ [v]\<rparr>"

definition throw :: "exn \<Rightarrow> let_env \<Rightarrow> unit completion" where
  "throw e env = Abrupt e env"

text \<open>
  \<open>try { body } catch (e) { handler }\<close>: the handler runs, with the thrown value, in
  the state the body had reached when it threw.
\<close>

definition try_catch ::
  "(let_env \<Rightarrow> unit completion) \<Rightarrow> (exn \<Rightarrow> let_env \<Rightarrow> unit completion) \<Rightarrow> let_env \<Rightarrow> unit completion" where
  "try_catch body handler env =
     (case body env of
        Normal v env' \<Rightarrow> Normal v env'
      | Abrupt e env' \<Rightarrow> handler e env')"

text \<open>
  Lines 37 to 42:
  \<^verbatim>\<open>
  try {
      throw "oh no!";
  }
  catch(e) {
      console.log("Oh well.");
  }
  \<close>
\<close>

definition try_block :: "let_env \<Rightarrow> unit completion" where
  "try_block = throw (ThrownValue (Str ''oh no!''))"

definition catch_clause :: "exn \<Rightarrow> let_env \<Rightarrow> unit completion" where
  "catch_clause e env = Normal () (console_log (Str ''Oh well.'') env)"

abbreviation try_stmt :: "let_env \<Rightarrow> unit completion" where
  "try_stmt \<equiv> try_catch try_block catch_clause"

text \<open>
  Lines 63 to 66: \<^verbatim>\<open>function foo1() { return d; }\<close>. Reading a binding in its dead
  zone throws a \<open>ReferenceError\<close>.
\<close>

definition foo1 :: "let_env \<Rightarrow> jsval completion" where
  "foo1 env =
     (case d_binding env of
        TDZ \<Rightarrow> Abrupt (ReferenceError ''d'') env
      | Initialized v \<Rightarrow> Normal v env)"

text \<open>
  Lines 112 to 119:
  \<^verbatim>\<open>
  function fun1(condition, y) {
      if (condition) {
          let y = 100;
          return y;
      }
      return y;
  }
  \<close>
\<close>

definition fun1 :: "bool \<Rightarrow> jsval \<Rightarrow> jsval" where
  "fun1 condition y = (if condition then (let y = Number 100 in y) else y)"

text \<open>
  Lines 183 to 185:
  \<^verbatim>\<open>
  for (let i = 0; i < 10; i++) {
      setTimeout(function() { console.log(i); }, 100 * i);
  }
  \<close>
  \<open>setTimeout\<close> belongs to the host, not to the repository: it registers the
  function with its delay and returns at once; the function runs later.
\<close>

definition setTimeout :: "callback \<Rightarrow> nat \<Rightarrow> let_env \<Rightarrow> let_env" where
  "setTimeout handler timeout env = env\<lparr>timers := timers env @ [(timeout, handler)]\<rparr>"

function for_setTimeout :: "nat \<Rightarrow> let_env \<Rightarrow> let_env" where
  "for_setTimeout i env =
     (if i < 10
      then for_setTimeout (i + 1) (setTimeout (LogCounter i) (100 * i) env)
      else env)"
  by pat_completeness auto
termination
  by (relation "measure (\<lambda>(i, env). 10 - i)") auto

declare for_setTimeout.simps [simp del]

text \<open>
  What the host does once the script has ended: the registered functions run one after
  the other, the shorter delay first and, for equal delays, the earlier registration
  first (\<open>sort_key\<close> is a stable insertion sort).
\<close>

fun run_callback :: "callback \<Rightarrow> let_env \<Rightarrow> let_env" where
  "run_callback (LogCounter i) env = console_log (Number (int i)) env"

definition run_timers :: "let_env \<Rightarrow> let_env" where
  "run_timers env =
     foldl (\<lambda>env' (timeout, handler). run_callback handler env')
           (env\<lparr>timers := []\<rparr>)
           (sort_key fst (timers env))"

text \<open>
  The state in which the file starts: every \<open>let\<close> is in its dead zone under
  ES2015, and is a hoisted \<open>var\<close> holding \<open>undefined\<close> under ES5.
\<close>

definition initial_env :: "target \<Rightarrow> let_env" where
  "initial_env t =
     (let b = (case t of ES2015 \<Rightarrow> TDZ | ES5 \<Rightarrow> Initialized Undefined)
      in \<lparr>hello_binding = b, c_binding = b, d_binding = b, x1_binding = b,
          console = [], timers = []\<rparr>)"

text \<open>
  The statements of the file in their order (function declarations are hoisted and
  have no effect of their own): line 9 \<open>let hello\<close>, lines 37 to 42 the \<open>try\<close>,
  line 55 \<open>let c\<close>, line 69 the call \<open>foo1()\<close>, line 70 \<open>let d\<close>, line 92
  \<open>let x1 = 10\<close>, lines 121 and 122 the two calls of \<open>fun1\<close>, whose results are
  dropped, and lines 183 to 185 the loop.
\<close>

definition let_declarations_ts :: "target \<Rightarrow> unit completion" where
  "let_declarations_ts t =
     and_then (Normal () ((initial_env t)\<lparr>hello_binding := Initialized (Str ''Hello!'')\<rparr>)) (\<lambda>_ env.
     and_then (try_stmt env) (\<lambda>_ env.
     and_then (Normal () (env\<lparr>c_binding := Initialized Undefined\<rparr>)) (\<lambda>_ env.
     and_then (foo1 env) (\<lambda>_ env.
     and_then (Normal () (env\<lparr>d_binding := Initialized Undefined\<rparr>)) (\<lambda>_ env.
     and_then (Normal () (env\<lparr>x1_binding := Initialized (Number 10)\<rparr>)) (\<lambda>_ env.
     and_then (Normal (fun1 False (Number 0)) env) (\<lambda>_ env.
     and_then (Normal (fun1 True (Number 0)) env) (\<lambda>_ env.
     Normal () (for_setTimeout 0 env)))))))))"

section \<open>Variable declarations: const-declarations.ts\<close>

text \<open>
  \<^verbatim>\<open>
  const numLivesForCat = 9;
  const kitty = {
      name: "Aurora",
      numLives: numLivesForCat
  }
  kitty.name = "Rory";
  kitty.name = "Kitty";
  kitty.name = "Cat";
  kitty.numLives--;
  \<close>
  The constant \<open>kitty\<close> holds a reference to an object, so the state has the objects
  on their own, in the order of their creation, and a reference is a position in that
  list. An assignment to a property changes the object and leaves the reference alone.
\<close>

record cat =
  name :: string
  numLives :: int

record const_env =
  numLivesForCat :: int
  kitty :: nat
  cats :: "cat list"

definition const_declarations :: const_env where
  "const_declarations =
     (let numLivesForCat = 9
      in \<lparr>numLivesForCat = numLivesForCat, kitty = 0,
          cats = [\<lparr>name = ''Aurora'', numLives = numLivesForCat\<rparr>]\<rparr>)"

definition assign_name :: "nat \<Rightarrow> string \<Rightarrow> const_env \<Rightarrow> const_env" where
  "assign_name ref v env = env\<lparr>cats := (cats env)[ref := (cats env ! ref)\<lparr>name := v\<rparr>]\<rparr>"

definition decrement_numLives :: "nat \<Rightarrow> const_env \<Rightarrow> const_env" where
  "decrement_numLives ref env =
     env\<lparr>cats := (cats env)[ref := (cats env ! ref)\<lparr>numLives := numLives (cats env ! ref) - 1\<rparr>]\<rparr>"

definition const_assignments :: "const_env \<Rightarrow> const_env" where
  "const_assignments env =
     (let env = assign_name (kitty env) ''Rory'' env;
          env = assign_name (kitty env) ''Kitty'' env;
          env = assign_name (kitty env) ''Cat'' env
      in decrement_numLives (kitty env) env)"

definition const_declarations_ts :: const_env where
  "const_declarations_ts = const_assignments const_declarations"

section \<open>Classes: the accessors of Employee6\<close>

text \<open>
  The unnamed source file on accessors, lines 29 to 52:
  \<^verbatim>\<open>
  let passcode = "secret passcode";

  class Employee6 {
      private _fullName: string;

      get fullName(): string {
          return this._fullName;
      }

      set fullName(newName: string) {
          if (passcode && passcode == "secret passcode") {
              this._fullName = newName;
          }
          else {
              console.log("Error: Unauthorized update of employee!");
          }
      }
  }

  let employee6 = new Employee6();
  employee6.fullName = "Ashwani Luhaniwal";
  if (employee6.fullName) {
      console.log(employee6.fullName);
  }
  \<close>
  The class has no constructor and no initialiser, so a new object has no
  \<open>_fullName\<close> yet: the field is \<open>None\<close> for \<open>undefined\<close>. The field is called
  \<open>fullName_field\<close> here, a name cannot start with an underscore. The state of the
  file is the module-level variable \<open>passcode\<close>, the \<open>Employee6\<close> objects in the order
  of their creation (a reference is a position in that list) and the lines written to
  the console.
\<close>

record Employee6 =
  fullName_field :: "string option"

record accessors_env =
  passcode :: string
  employees :: "Employee6 list"
  logged :: "string list"

text \<open>A string in a condition counts as true unless it is empty.\<close>

definition truthy_string :: "string \<Rightarrow> bool" where
  "truthy_string s = (s \<noteq> [])"

definition new_Employee6 :: "accessors_env \<Rightarrow> nat \<times> accessors_env" where
  "new_Employee6 env =
     (length (employees env), env\<lparr>employees := employees env @ [\<lparr>fullName_field = None\<rparr>]\<rparr>)"

definition get_fullName :: "nat \<Rightarrow> accessors_env \<Rightarrow> string option" where
  "get_fullName this env =
     (if this < length (employees env) then fullName_field (employees env ! this) else None)"

definition set_fullName :: "nat \<Rightarrow> string \<Rightarrow> accessors_env \<Rightarrow> accessors_env" where
  "set_fullName this newName env =
     (if truthy_string (passcode env) \<and> passcode env = ''secret passcode''
      then env\<lparr>employees :=
                 (employees env)[this := (employees env ! this)\<lparr>fullName_field := Some newName\<rparr>]\<rparr>
      else env\<lparr>logged := logged env @ [''Error: Unauthorized update of employee!'']\<rparr>)"

text \<open>
  Lines 48 to 52, run in a state whose \<open>passcode\<close> the caller chooses. The source
  reads \<open>employee6.fullName\<close> twice, in the condition and in the call; the getter
  changes nothing, so both reads give the one value \<open>fullName\<close>.
\<close>

definition employee6_statements :: "accessors_env \<Rightarrow> accessors_env" where
  "employee6_statements env =
     (let (employee6, env) = new_Employee6 env;
          env = set_fullName employee6 ''Ashwani Luhaniwal'' env
      in case get_fullName employee6 env of
           None \<Rightarrow> env
         | Some fullName \<Rightarrow>
             if truthy_string fullName then env\<lparr>logged := logged env @ [fullName]\<rparr> else env)"

text \<open>
  Two states that differ at most in \<open>passcode\<close>: the same objects and the same console.
\<close>

definition same_but_passcode :: "accessors_env \<Rightarrow> accessors_env \<Rightarrow> bool" where
  "same_but_passcode env1 env2 =
     (employees env1 = employees env2 \<and> logged env1 = logged env2)"

section \<open>Interfaces: createSquare\<close>

text \<open>
  A number of the language is \<open>NaN\<close>, one of the two infinities (the flag says
  whether it is the negative one), the negative zero, or a finite value, given as the
  real number it stands for; \<open>Finite 0\<close> is the positive zero. A number in a
  condition counts as true unless it is a zero or \<open>NaN\<close>.
\<close>

datatype number = NaN | Infinity bool | NegZero | Finite real

fun truthy_number :: "number \<Rightarrow> bool" where
  "truthy_number NaN = False"
| "truthy_number (Infinity s) = True"
| "truthy_number NegZero = False"
| "truthy_number (Finite x) = (x \<noteq> 0)"

fun negative :: "number \<Rightarrow> bool" where
  "negative NaN = False"
| "negative (Infinity s) = s"
| "negative NegZero = True"
| "negative (Finite x) = (x < 0)"

fun zero_number :: "bool \<Rightarrow> number" where
  "zero_number True = NegZero"
| "zero_number False = Finite 0"

text \<open>
  The product \<open>a * b\<close> of the language. \<open>NaN\<close> gives \<open>NaN\<close>, and so does an
  infinity times a zero; otherwise the sign is negative exactly if one of the two
  factors is, an infinity gives an infinity and a zero gives a zero. The product of two
  finite numbers other than zero is their exact product made a number again: rounded to
  the nearest one, an infinity when it is too large, a zero when it is too small. How
  that is done is fixed by the language, not by the repository, so it is the parameter
  \<open>rnd\<close>, and what is proved holds for every such function.
\<close>

fun times_number :: "(real \<Rightarrow> number) \<Rightarrow> number \<Rightarrow> number \<Rightarrow> number" where
  "times_number rnd NaN b = NaN"
| "times_number rnd a NaN = NaN"
| "times_number rnd (Infinity s) b =
     (if truthy_number b then Infinity (s \<noteq> negative b) else NaN)"
| "times_number rnd a (Infinity s) =
     (if truthy_number a then Infinity (negative a \<noteq> s) else NaN)"
| "times_number rnd NegZero b = zero_number (\<not> negative b)"
| "times_number rnd a NegZero = zero_number (\<not> negative a)"
| "times_number rnd (Finite x) (Finite y) =
     (if x = 0 \<or> y = 0 then zero_number ((x < 0) \<noteq> (y < 0)) else rnd (x * y))"

text \<open>
  \<^verbatim>\<open>interfaces.ts\<close>, lines 58 to 72:
  \<^verbatim>\<open>
  interface SquareConfig {
      color?: string;
      width?: number;
  }

  function createSquare(config: SquareConfig): {color: string; area: number} {
      let newSquare = {color: "white", area: 100};
      if (config.color) {
          newSquare.color = config.color;
      }
      if (config.width) {
          newSquare.area = config.width * config.width;
      }
      return newSquare;
  }
  \<close>
  A property that is left out reads as \<open>undefined\<close>, which counts as false: it is
  \<open>None\<close> here. The result has a \<open>color\<close> too; its field is \<open>square_color\<close>.
  The first argument is the rounding that the product of the language uses.
\<close>

record SquareConfig =
  color :: "string option"
  width :: "number option"

record Square =
  square_color :: string
  area :: number

definition createSquare :: "(real \<Rightarrow> number) \<Rightarrow> SquareConfig \<Rightarrow> Square" where
  "createSquare rnd config =
     (let newSquare = \<lparr>square_color = ''white'', area = Finite 100\<rparr>;
          newSquare = (case color config of
                         None \<Rightarrow> newSquare
                       | Some c \<Rightarrow> if truthy_string c then newSquare\<lparr>square_color := c\<rparr>
                                   else newSquare);
          newSquare = (case width config of
                         None \<Rightarrow> newSquare
                       | Some w \<Rightarrow> if truthy_number w then newSquare\<lparr>area := times_number rnd w w\<rparr>
                                   else newSquare)
      in newSquare)"

section \<open>The matrix sums: what the loops compute\<close>

text \<open>
  Each loop of \<open>sumMatrix1\<close> adds what is left of its list to the sum it was given,
  from the left.
\<close>

lemma sumMatrix1_inner_foldl:
  "sumMatrix1_inner currentRow i s = foldl (+) s (drop i currentRow)"
proof (induction currentRow i s rule: sumMatrix1_inner.induct)
  case (1 currentRow i s)
  show ?case
  proof (cases "i < length currentRow")
    case True
    then have "drop i currentRow = currentRow ! i # drop (Suc i) currentRow"
      by (simp add: Cons_nth_drop_Suc)
    with True 1 show ?thesis
      by (subst sumMatrix1_inner.simps) simp
  next
    case False
    then show ?thesis
      by (subst sumMatrix1_inner.simps) simp
  qed
qed

lemma sumMatrix1_outer_foldl:
  "sumMatrix1_outer matrix i s = foldl (+) s (concat (drop i matrix))"
proof (induction matrix i s rule: sumMatrix1_outer.induct)
  case (1 matrix i s)
  show ?case
  proof (cases "i < length matrix")
    case True
    then have "drop i matrix = matrix ! i # drop (Suc i) matrix"
      by (simp add: Cons_nth_drop_Suc)
    with True 1 show ?thesis
      by (subst sumMatrix1_outer.simps) (simp add: sumMatrix1_inner_foldl)
  next
    case False
    then show ?thesis
      by (subst sumMatrix1_outer.simps) simp
  qed
qed

lemma sumMatrix1_foldl: "sumMatrix1 matrix = foldl (+) 0 (concat matrix)"
  by (simp add: sumMatrix1_def sumMatrix1_outer_foldl)

lemma foldl_plus_sum_list: "foldl (+) (a :: 'a::monoid_add) xs = a + sum_list xs"
  by (induction xs arbitrary: a) (simp_all add: add.assoc)

lemma sum_list_rows: "sum_list (concat (matrix :: 'a::monoid_add list list)) = sum_list (map sum_list matrix)"
  by (induction matrix) simp_all

lemma sumMatrix1_sum_list:
  "sumMatrix1 (matrix :: 'a::monoid_add list list) = sum_list (map sum_list matrix)"
  by (simp add: sumMatrix1_foldl foldl_plus_sum_list sum_list_rows)

lemma sumMatrix_inner_eq:
  "sumMatrix_inner currentRow i s = (max i (length currentRow), foldl (+) s (drop i currentRow))"
proof (induction currentRow i s rule: sumMatrix_inner.induct)
  case (1 currentRow i s)
  show ?case
  proof (cases "i < length currentRow")
    case True
    then have "drop i currentRow = currentRow ! i # drop (Suc i) currentRow"
      by (simp add: Cons_nth_drop_Suc)
    with True 1 show ?thesis
      by (subst sumMatrix_inner.simps) (simp add: max_def)
  next
    case False
    then show ?thesis
      by (subst sumMatrix_inner.simps) (simp add: max_def)
  qed
qed

lemma sumMatrix_outer_step:
  "i < length matrix \<Longrightarrow> sumMatrix_outer matrix i s =
     sumMatrix_outer matrix (length (matrix ! i) + 1) (foldl (+) s (matrix ! i))"
  by (subst sumMatrix_outer.simps) (simp add: sumMatrix_inner_eq)

lemma sumMatrix_outer_stop:
  "\<not> i < length matrix \<Longrightarrow> sumMatrix_outer matrix i s = Some s"
  by (subst sumMatrix_outer.simps) simp

text \<open>
  On two empty rows the outer loop of \<open>sumMatrix\<close> comes back to the counter 1
  for ever: no result is ever returned.
\<close>

lemma sumMatrix_outer_stuck:
  "sumMatrix_outer matrix i s = Some y \<Longrightarrow> \<not> (matrix = [[], []] \<and> i = 1)"
proof (rule sumMatrix_outer.raw_induct
    [where P = "\<lambda>matrix i s y. \<not> (matrix = [[], []] \<and> i = 1)"])
  fix f :: "'a list list \<Rightarrow> nat \<Rightarrow> 'a \<Rightarrow> 'a option" and matrix i s y
  assume IH: "\<And>m j t z. f m j t = Some z \<Longrightarrow> \<not> (m = [[], []] \<and> j = 1)"
    and eq: "(if i < length matrix
      then case sumMatrix_inner (matrix ! i) 0 s of
           (i', s') \<Rightarrow> f matrix (i' + 1) s'
      else Some s) = Some y"
  show "\<not> (matrix = [[], []] \<and> i = 1)"
  proof
    assume "matrix = [[], []] \<and> i = 1"
    with eq have "f [[], []] 1 s = Some y"
      by (simp add: sumMatrix_inner_eq)
    from IH [OF this] show False by simp
  qed
qed

lemma sumMatrix_two_empty_rows: "sumMatrix ([[], []] :: 'a::{zero,plus} list list) = None"
proof (cases "sumMatrix ([[], []] :: 'a list list)")
  case None
  then show ?thesis .
next
  case (Some y)
  have "sumMatrix ([[], []] :: 'a list list) = sumMatrix_outer [[], []] 1 0"
    unfolding sumMatrix_def by (subst sumMatrix_outer_step) simp_all
  with Some have "sumMatrix_outer ([[], []] :: 'a list list) 1 0 = Some y"
    by (simp only:)
  with sumMatrix_outer_stuck show ?thesis by blast
qed

text \<open>
  C2. \<open>sumMatrix1\<close> and \<open>sumMatrix\<close> are not the same function. For every matrix
  \<open>sumMatrix1\<close> returns the sum of all elements of all rows: it adds them to 0 from
  the left, row after row (this needs no law of addition), which is the sum of the sums
  of the rows wherever addition is associative with 0 as its unit. On the matrix
  \<open>[[1, 1], [1, 1]]\<close> \<open>sumMatrix\<close> returns 2 and \<open>sumMatrix1\<close> returns 4: the
  inner loop of \<open>sumMatrix\<close> leaves the shared counter at 2, the outer loop then
  counts to 3 and stops before the second row.
\<close>

theorem sumMatrix1_sums_and_sumMatrix_differs:
  "sumMatrix1 (matrix :: 'a::{zero,plus} list list) = foldl (+) 0 (concat matrix)
   \<and> sumMatrix1 (matrix' :: 'b::monoid_add list list) = sum_list (map sum_list matrix')
   \<and> sumMatrix [[1, 1], [1, 1 :: real]] = Some 2
   \<and> sumMatrix1 [[1, 1], [1, 1 :: real]] = 4"
proof -
  have "sumMatrix [[1, 1], [1, 1 :: real]] = Some 2"
    by (simp add: sumMatrix_def sumMatrix_outer_step sumMatrix_outer_stop)
  moreover have "sumMatrix1 [[1, 1], [1, 1 :: real]] = 4"
    by (simp add: sumMatrix1_foldl)
  ultimately show ?thesis
    by (simp only: sumMatrix1_foldl [of matrix] sumMatrix1_sum_list [of matrix'] simp_thms)
qed

text \<open>
  C6, as the specification has it: no function of the source takes a structured
  collection, such as a list of rows of numbers, and computes an aggregate from it.
  \<open>sumMatrix1\<close> does: given the two rows 1, 2 and 3, 4 it returns the sum of the
  four numbers.
\<close>

theorem sumMatrix1_rows_counterexample:
  "sumMatrix1 [[1, 2], [3, 4 :: real]] = 1 + 2 + 3 + 4"
  by (simp add: sumMatrix1_foldl)

text \<open>
  C6, amended. The source has functions that take a list of rows of numbers and
  compute an aggregate from it. \<open>sumMatrix1\<close> returns 0 for no rows, and for a list
  of rows with one more row at its end it returns its result on the list with the
  elements of the new row added to it one by one, from the left; \<open>sumMatrix\<close>,
  given one row, returns 0 with the elements of the row added one by one, from the
  left. This holds for every addition, also one that rounds.
\<close>

theorem sumMatrix1_aggregates:
  "sumMatrix1 ([] :: 'a::{zero,plus} list list) = 0
   \<and> sumMatrix1 (matrix @ [row :: 'a list]) = foldl (+) (sumMatrix1 matrix) row
   \<and> sumMatrix [row] = Some (foldl (+) 0 row)"
proof -
  have "sumMatrix [row] = Some (foldl (+) 0 row)"
    by (simp add: sumMatrix_def sumMatrix_outer_step sumMatrix_outer_stop)
  then show ?thesis
    by (simp add: sumMatrix1_foldl)
qed

section \<open>Failure handling\<close>



section \<open>The passcode of Employee6\<close>

text \<open>
  C3, as the specification has it: no operation depends on a secret value; two runs
  that differ only in \<open>passcode\<close> give the same results and the same state. The
  setter does depend on it: from two states with the same objects and the same console,
  one with the right passcode and one with a wrong one, it reaches states whose objects
  and console differ.
\<close>

theorem passcode_decides_set_fullName_counterexample:
  "same_but_passcode
     \<lparr>passcode = ''secret passcode'', employees = [\<lparr>fullName_field = None\<rparr>], logged = []\<rparr>
     \<lparr>passcode = ''guess'', employees = [\<lparr>fullName_field = None\<rparr>], logged = []\<rparr>
   \<and> \<not> same_but_passcode
     (set_fullName 0 ''Eve''
        \<lparr>passcode = ''secret passcode'', employees = [\<lparr>fullName_field = None\<rparr>], logged = []\<rparr>)
     (set_fullName 0 ''Eve''
        \<lparr>passcode = ''guess'', employees = [\<lparr>fullName_field = None\<rparr>], logged = []\<rparr>)"
  by (simp add: same_but_passcode_def set_fullName_def truthy_string_def)

text \<open>
  C3, amended. The operations of \<open>Employee6\<close> depend on \<open>passcode\<close> only through the
  test whether it is "secret passcode": from two states with the same objects and the
  same console, whatever their passcodes, the setter reaches states with the same
  objects and the same console exactly when the two passcodes pass that test alike;
  the getter and \<open>new Employee6()\<close> do not depend on \<open>passcode\<close> at all, they
  give the same result and the same objects and console from any two such states.
\<close>

theorem passcode_matters_only_through_its_test:
  assumes "same_but_passcode env1 env2"
  shows "same_but_passcode (set_fullName this newName env1) (set_fullName this newName env2)
           = ((passcode env1 = ''secret passcode'') = (passcode env2 = ''secret passcode''))
       \<and> get_fullName this env1 = get_fullName this env2
       \<and> fst (new_Employee6 env1) = fst (new_Employee6 env2)
       \<and> same_but_passcode (snd (new_Employee6 env1)) (snd (new_Employee6 env2))"
  using assms
  by (auto simp add: same_but_passcode_def set_fullName_def get_fullName_def new_Employee6_def
      truthy_string_def)

text \<open>
  C3, the amended statement at two states whose passcodes both fail the test, one of
  them empty: the setter leaves them with the same objects and console, and the getter
  returns the same in both.
\<close>

theorem passcode_matters_only_through_its_test_witness:
  "same_but_passcode
     \<lparr>passcode = ''guess'', employees = [\<lparr>fullName_field = None\<rparr>], logged = []\<rparr>
     \<lparr>passcode = [], employees = [\<lparr>fullName_field = None\<rparr>], logged = []\<rparr>
   \<and> same_but_passcode
     (set_fullName 0 ''Eve'' \<lparr>passcode = ''guess'', employees = [\<lparr>fullName_field = None\<rparr>], logged = []\<rparr>)
     (set_fullName 0 ''Eve'' \<lparr>passcode = [], employees = [\<lparr>fullName_field = None\<rparr>], logged = []\<rparr>)
   \<and> get_fullName 0 \<lparr>passcode = ''guess'', employees = [\<lparr>fullName_field = None\<rparr>], logged = []\<rparr>
       = get_fullName 0 \<lparr>passcode = [], employees = [\<lparr>fullName_field = None\<rparr>], logged = []\<rparr>"
proof -
  let ?env1 = "\<lparr>passcode = ''guess'', employees = [\<lparr>fullName_field = None\<rparr>], logged = []\<rparr>"
  let ?env2 = "\<lparr>passcode = [], employees = [\<lparr>fullName_field = None\<rparr>], logged = []\<rparr>"
  have same: "same_but_passcode ?env1 ?env2"
    by (simp add: same_but_passcode_def)
  note test = passcode_matters_only_through_its_test [OF same, of 0 "''Eve''"]
  from test have "same_but_passcode (set_fullName 0 ''Eve'' ?env1) (set_fullName 0 ''Eve'' ?env2)
      = ((passcode ?env1 = ''secret passcode'') = (passcode ?env2 = ''secret passcode''))"
    by blast
  then have "same_but_passcode (set_fullName 0 ''Eve'' ?env1) (set_fullName 0 ''Eve'' ?env2)"
    by simp
  moreover from test have "get_fullName 0 ?env1 = get_fullName 0 ?env2"
    by blast
  ultimately show ?thesis
    using same by blast
qed

text \<open>
  C4. For every \<open>Employee6\<close> object and every \<open>newName\<close>, the setter stores
  \<open>newName\<close> in \<open>_fullName\<close> if and only if \<open>passcode\<close> is "secret passcode":
  the objects change in that field of that object when it is, and not at all when it is
  not, so that the getter then returns what it returned before. After the assignment
  the getter returns \<open>newName\<close> exactly if the passcode was right or \<open>newName\<close> was
  there already.
\<close>

theorem set_fullName_stores_iff_passcode:
  assumes "this < length (employees env)"
  shows "employees (set_fullName this newName env) =
           (if passcode env = ''secret passcode''
            then (employees env)[this := (employees env ! this)\<lparr>fullName_field := Some newName\<rparr>]
            else employees env)
       \<and> get_fullName this (set_fullName this newName env) =
           (if passcode env = ''secret passcode'' then Some newName else get_fullName this env)
       \<and> (get_fullName this (set_fullName this newName env) = Some newName) =
           (passcode env = ''secret passcode'' \<or> get_fullName this env = Some newName)"
  using assms by (auto simp add: set_fullName_def get_fullName_def truthy_string_def)

text \<open>
  C4 at two states: with the right passcode the name is stored, with a wrong one the
  getter still returns the old name.
\<close>

theorem set_fullName_stores_iff_passcode_witness:
  "(0 :: nat) < length (employees \<lparr>passcode = ''secret passcode'', employees = [\<lparr>fullName_field = None\<rparr>], logged = []\<rparr>)
   \<and> get_fullName 0 (set_fullName 0 ''Ashwani Luhaniwal''
        \<lparr>passcode = ''secret passcode'', employees = [\<lparr>fullName_field = None\<rparr>], logged = []\<rparr>)
      = Some ''Ashwani Luhaniwal''
   \<and> (0 :: nat) < length (employees \<lparr>passcode = ''guess'', employees = [\<lparr>fullName_field = Some ''Bob''\<rparr>], logged = []\<rparr>)
   \<and> get_fullName 0 (set_fullName 0 ''Ashwani Luhaniwal''
        \<lparr>passcode = ''guess'', employees = [\<lparr>fullName_field = Some ''Bob''\<rparr>], logged = []\<rparr>)
      = Some ''Bob''"
  using set_fullName_stores_iff_passcode
          [of 0 "\<lparr>passcode = ''secret passcode'', employees = [\<lparr>fullName_field = None\<rparr>], logged = []\<rparr>"
              "''Ashwani Luhaniwal''"]
        set_fullName_stores_iff_passcode
          [of 0 "\<lparr>passcode = ''guess'', employees = [\<lparr>fullName_field = Some ''Bob''\<rparr>], logged = []\<rparr>"
              "''Ashwani Luhaniwal''"]
  by (simp add: get_fullName_def)

section \<open>State that persists\<close>

text \<open>
  C9, as the specification has it: no operation changes an object created before or a
  module-level variable, and nothing one operation writes is seen by a later one. The
  assignments of \<^verbatim>\<open>const-declarations.ts\<close> change the object of \<open>kitty\<close> from
  Aurora with 9 lives to Cat with 8, and the name the setter of \<open>Employee6\<close> stores is
  what the getter returns, and the file prints, afterwards.
\<close>

theorem written_state_is_observed_counterexample:
  "cats const_declarations = [\<lparr>name = ''Aurora'', numLives = 9\<rparr>]
   \<and> cats const_declarations_ts = [\<lparr>name = ''Cat'', numLives = 8\<rparr>]
   \<and> logged (employee6_statements \<lparr>passcode = ''secret passcode'', employees = [], logged = []\<rparr>)
       = [''Ashwani Luhaniwal'']"
  by (simp add: const_declarations_ts_def const_declarations_def const_assignments_def
      assign_name_def decrement_numLives_def employee6_statements_def new_Employee6_def
      set_fullName_def get_fullName_def truthy_string_def)

lemma const_assignments_frame:
  "numLivesForCat (const_assignments cenv) = numLivesForCat cenv
   \<and> kitty (const_assignments cenv) = kitty cenv
   \<and> length (cats (const_assignments cenv)) = length (cats cenv)"
  by (simp add: const_assignments_def assign_name_def decrement_numLives_def)

lemma const_assignments_other:
  "r \<noteq> kitty cenv \<Longrightarrow> cats (const_assignments cenv) ! r = cats cenv ! r"
  by (simp add: const_assignments_def assign_name_def decrement_numLives_def)

lemma const_assignments_kitty:
  "kitty cenv < length (cats cenv) \<Longrightarrow>
   cats (const_assignments cenv) ! kitty cenv =
     \<lparr>name = ''Cat'', numLives = numLives (cats cenv ! kitty cenv) - 1\<rparr>"
  by (simp add: const_assignments_def assign_name_def decrement_numLives_def)

text \<open>
  C9, amended. The program keeps state that operations change, within these bounds:
  the setter of \<open>Employee6\<close> leaves \<open>passcode\<close>, the number of objects and every
  object but its own unchanged, and what it stores (for an existing object, with the
  right passcode) is what the getter returns afterwards; the assignments of
  \<^verbatim>\<open>const-declarations.ts\<close> leave \<open>numLivesForCat\<close>, the reference in \<open>kitty\<close>, the
  number of objects and every other object unchanged, and leave the object of \<open>kitty\<close>
  with the name "Cat" and one life less.
\<close>

theorem state_changes_are_confined:
  assumes "r \<noteq> this" and "r' \<noteq> kitty cenv" and "kitty cenv < length (cats cenv)"
  shows "passcode (set_fullName this newName env) = passcode env
       \<and> length (employees (set_fullName this newName env)) = length (employees env)
       \<and> get_fullName r (set_fullName this newName env) = get_fullName r env
       \<and> get_fullName this (set_fullName this newName env) =
           (if this < length (employees env) \<and> passcode env = ''secret passcode''
            then Some newName else get_fullName this env)
       \<and> numLivesForCat (const_assignments cenv) = numLivesForCat cenv
       \<and> kitty (const_assignments cenv) = kitty cenv
       \<and> length (cats (const_assignments cenv)) = length (cats cenv)
       \<and> cats (const_assignments cenv) ! r' = cats cenv ! r'
       \<and> cats (const_assignments cenv) ! kitty cenv =
           \<lparr>name = ''Cat'', numLives = numLives (cats cenv ! kitty cenv) - 1\<rparr>"
proof -
  have "passcode (set_fullName this newName env) = passcode env"
    by (simp add: set_fullName_def)
  moreover have "length (employees (set_fullName this newName env)) = length (employees env)"
    by (simp add: set_fullName_def)
  moreover have "get_fullName r (set_fullName this newName env) = get_fullName r env"
    using assms(1) by (simp add: set_fullName_def get_fullName_def)
  moreover have "get_fullName this (set_fullName this newName env) =
           (if this < length (employees env) \<and> passcode env = ''secret passcode''
            then Some newName else get_fullName this env)"
    by (simp add: set_fullName_def get_fullName_def truthy_string_def)
  ultimately show ?thesis
    using const_assignments_frame [of cenv] const_assignments_other [OF assms(2)]
      const_assignments_kitty [OF assms(3)]
    by simp
qed

text \<open>
  C9, the amended statement at the state of \<^verbatim>\<open>const-declarations.ts\<close> and at two
  employees, of whom the first is renamed.
\<close>

theorem state_changes_are_confined_witness:
  "(1 :: nat) \<noteq> 0 \<and> (1 :: nat) \<noteq> kitty const_declarations
   \<and> kitty const_declarations < length (cats const_declarations)
   \<and> get_fullName 1 (set_fullName 0 ''Eve''
        \<lparr>passcode = ''secret passcode'',
         employees = [\<lparr>fullName_field = None\<rparr>, \<lparr>fullName_field = Some ''Bob''\<rparr>], logged = []\<rparr>)
      = Some ''Bob''
   \<and> cats (const_assignments const_declarations) ! kitty const_declarations
      = \<lparr>name = ''Cat'', numLives = 8\<rparr>"
proof -
  let ?env = "\<lparr>passcode = ''secret passcode'',
         employees = [\<lparr>fullName_field = None\<rparr>, \<lparr>fullName_field = Some ''Bob''\<rparr>], logged = []\<rparr>"
  have h1: "(1 :: nat) \<noteq> 0" by simp
  have h2: "(1 :: nat) \<noteq> kitty const_declarations"
    by (simp add: const_declarations_def)
  have h3: "kitty const_declarations < length (cats const_declarations)"
    by (simp add: const_declarations_def)
  note confined = state_changes_are_confined [OF h1 h2 h3, of "''Eve''" ?env]
  from confined have "get_fullName 1 (set_fullName 0 ''Eve'' ?env) = get_fullName 1 ?env"
    by blast
  then have g: "get_fullName 1 (set_fullName 0 ''Eve'' ?env) = Some ''Bob''"
    by (simp add: get_fullName_def)
  from confined have "cats (const_assignments const_declarations) ! kitty const_declarations
      = \<lparr>name = ''Cat'', numLives = numLives (cats const_declarations ! kitty const_declarations) - 1\<rparr>"
    by blast
  then have k: "cats (const_assignments const_declarations) ! kitty const_declarations
      = \<lparr>name = ''Cat'', numLives = 8\<rparr>"
    by (simp add: const_declarations_def)
  from h1 h2 h3 g k show ?thesis by blast
qed

section \<open>The top level of let-declarations.ts\<close>

lemma for_setTimeout_eq:
  "for_setTimeout i env =
     env\<lparr>timers := timers env @ map (\<lambda>j. (100 * j, LogCounter j)) [i..<10]\<rparr>"
proof (induction i env rule: for_setTimeout.induct)
  case (1 i env)
  show ?case
  proof (cases "i < 10")
    case True
    then have "[i..<10] = i # [Suc i..<10]"
      by (simp add: upt_conv_Cons)
    with True 1 show ?thesis
      by (subst for_setTimeout.simps) (simp add: setTimeout_def)
  next
    case False
    then show ?thesis
      by (subst for_setTimeout.simps) simp
  qed
qed

lemma run_callback_timers: "timers (run_callback handler env) = timers env"
  by (cases handler) (simp add: console_log_def)

lemma fire_timers:
  "timers (foldl (\<lambda>env' (timeout, handler). run_callback handler env') env ts) = timers env"
  by (induction ts arbitrary: env) (simp_all add: run_callback_timers split: prod.split)

lemma upt_0_10: "[0..<10] = [0, 1, 2, 3, 4, 5, 6, 7, 8, 9 :: nat]"
  by code_simp

text \<open>
  C7, as the specification has it: every file runs from top to bottom without an
  unhandled error, and no function is called before the \<open>let\<close> variables it reads are
  initialised. Under ES2015 \<^verbatim>\<open>let-declarations.ts\<close> does not complete.
\<close>

theorem let_declarations_ts_throws_counterexample:
  "\<not> completes (let_declarations_ts ES2015)"
  by (simp add: let_declarations_ts_def initial_env_def try_block_def catch_clause_def try_catch_def throw_def
      console_log_def foo1_def)

text \<open>
  C7, amended. Under ES2015 the evaluation of \<^verbatim>\<open>let-declarations.ts\<close> ends at the call
  \<open>foo1()\<close> of line 69 with an uncaught \<open>ReferenceError\<close> for \<open>d\<close>: by then
  \<open>hello\<close> and \<open>c\<close> are initialised, the \<open>try\<close> statement has caught its own
  exception and written "Oh well.", and \<open>d\<close> and \<open>x1\<close> are still in their dead zone;
  nothing after the call runs. \<open>foo1\<close> returns normally exactly in the states where
  \<open>d\<close> is initialised, and the same file compiled for ES5 completes.
\<close>

theorem let_declarations_ts_stops_at_foo1:
  "let_declarations_ts ES2015 =
     Abrupt (ReferenceError ''d'')
       \<lparr>hello_binding = Initialized (Str ''Hello!''), c_binding = Initialized Undefined,
        d_binding = TDZ, x1_binding = TDZ, console = [Str ''Oh well.''], timers = []\<rparr>
   \<and> completes (foo1 env) = (d_binding env \<noteq> TDZ)
   \<and> completes (let_declarations_ts ES5)"
proof -
  have "let_declarations_ts ES2015 =
     Abrupt (ReferenceError ''d'')
       \<lparr>hello_binding = Initialized (Str ''Hello!''), c_binding = Initialized Undefined,
        d_binding = TDZ, x1_binding = TDZ, console = [Str ''Oh well.''], timers = []\<rparr>"
    by (simp add: let_declarations_ts_def initial_env_def try_block_def catch_clause_def try_catch_def throw_def
      console_log_def foo1_def)
  moreover have "completes (foo1 env) = (d_binding env \<noteq> TDZ)"
    by (simp add: foo1_def split: binding.split)
  moreover have "completes (let_declarations_ts ES5)"
    by (simp add: let_declarations_ts_def initial_env_def try_block_def catch_clause_def try_catch_def throw_def
      console_log_def foo1_def Let_def)
  ultimately show ?thesis by blast
qed

text \<open>
  C10, as the specification has it: no operation schedules or defers execution. When
  \<^verbatim>\<open>let-declarations.ts\<close>, compiled for ES5, has run to its end, ten functions
  registered with \<open>setTimeout\<close> have not run yet.
\<close>

theorem setTimeout_loop_defers_counterexample:
  "let_declarations_ts ES5 =
     Normal ()
       \<lparr>hello_binding = Initialized (Str ''Hello!''), c_binding = Initialized Undefined,
        d_binding = Initialized Undefined, x1_binding = Initialized (Number 10),
        console = [Str ''Oh well.''],
        timers = [(0, LogCounter 0), (100, LogCounter 1), (200, LogCounter 2),
                  (300, LogCounter 3), (400, LogCounter 4), (500, LogCounter 5),
                  (600, LogCounter 6), (700, LogCounter 7), (800, LogCounter 8),
                  (900, LogCounter 9)]\<rparr>"
  by (simp add: let_declarations_ts_def initial_env_def try_block_def catch_clause_def try_catch_def throw_def
      console_log_def foo1_def for_setTimeout_eq upt_0_10 Let_def)

text \<open>
  C10, amended. One statement of the program defers execution: in every state the loop
  of lines 183 to 185 registers ten functions with the delays 0, 100, ..., 900 and
  writes nothing to the console itself; when the registered functions run afterwards,
  by delay and one at a time, they write 0, 1, ..., 9 in this order, and no timer is
  left.
\<close>

theorem setTimeout_loop_defers:
  "timers (for_setTimeout 0 env) = timers env @ map (\<lambda>i. (100 * i, LogCounter i)) [0..<10]
   \<and> console (for_setTimeout 0 env) = console env
   \<and> console (run_timers (for_setTimeout 0 (env\<lparr>timers := []\<rparr>)))
       = console env @ map (\<lambda>i. Number (int i)) [0..<10]
   \<and> timers (run_timers env) = []"
proof -
  have "console (run_timers (for_setTimeout 0 (env\<lparr>timers := []\<rparr>)))
       = console env @ map (\<lambda>i. Number (int i)) [0..<10]"
    by (simp add: run_timers_def for_setTimeout_eq console_log_def upt_0_10)
  moreover have "timers (run_timers env) = []"
    by (simp add: run_timers_def fire_timers)
  ultimately show ?thesis
    by (simp add: for_setTimeout_eq)
qed

section \<open>createSquare\<close>

text \<open>
  C5. For every \<open>config\<close>, the \<open>color\<close> of the result of \<open>createSquare\<close> is
  \<open>config.color\<close> if that is a string that is not empty, and "white" otherwise; its
  \<open>area\<close> is the product \<open>config.width * config.width\<close> of the language if
  \<open>config.width\<close> is a number other than the zeros and \<open>NaN\<close>, and 100 otherwise.
  That product is the positive infinity for an infinite width and the rounded square
  for a finite one. With the width 0, or the negative zero, the area is 100, not 0.
\<close>

theorem createSquare_defaults:
  "square_color (createSquare rnd config) =
     (case color config of None \<Rightarrow> ''white'' | Some c \<Rightarrow> if c = [] then ''white'' else c)
   \<and> area (createSquare rnd config) =
     (case width config of
        None \<Rightarrow> Finite 100
      | Some w \<Rightarrow>
          if w = NaN \<or> w = NegZero \<or> w = Finite 0 then Finite 100
          else times_number rnd w w)
   \<and> area (createSquare rnd config) =
     (case width config of
        None \<Rightarrow> Finite 100
      | Some NaN \<Rightarrow> Finite 100
      | Some (Infinity s) \<Rightarrow> Infinity False
      | Some NegZero \<Rightarrow> Finite 100
      | Some (Finite x) \<Rightarrow> if x = 0 then Finite 100 else rnd (x * x))
   \<and> area (createSquare rnd \<lparr>color = None, width = Some (Finite 0)\<rparr>) = Finite 100
   \<and> area (createSquare rnd \<lparr>color = None, width = Some NegZero\<rparr>) = Finite 100"
  by (simp add: createSquare_def truthy_string_def split: option.split number.split)

end
